theory Spec2Isabelle
  imports Complex_Main
begin

section \<open>The analyze route of the employee attrition application\<close>

text \<open>
  This theory embeds \<^verbatim>\<open>src/app/api/analyze/route.ts\<close>: the two value helpers
  \<^verbatim>\<open>isNumericLike\<close> and \<^verbatim>\<open>toNumber\<close> and the request handler \<^verbatim>\<open>POST\<close>.

  Conventions of the embedding.
  \<^item> A JavaScript number is an exact real, or one of the three special values. The
    arithmetic of the handler is carried out on exact reals: the rounding of IEEE-754
    binary64, the overflow of its sums and products, and its signed zero are not part of
    the model. A numeric text beyond the binary64 range does parse to infinity.
  \<^item> A JavaScript string is a \<^typ>\<open>string\<close>; every character stands for one UTF-16 code
    unit below 256.
  \<^item> A cell value is one of the scalars of the data model: null, a boolean, a number or a
    string, together with \<^verbatim>\<open>undefined\<close> (the result of reading a property that is
    absent). Arrays and objects as cell values are outside the model.
  \<^item> An object is the list of its own properties in enumeration order.
\<close>

subsection \<open>Values\<close>

datatype number = Finite real | PosInfinity | NegInfinity | NaN

datatype jsval =
    JUndefined
  | JNull
  | JBoolean bool
  | JNumber number
  | JString string

text \<open>\<^verbatim>\<open>Number.isFinite\<close> and \<^verbatim>\<open>Number.isNaN\<close> on a value that is already a number.\<close>

fun Number_isFinite :: "number \<Rightarrow> bool" where
  "Number_isFinite (Finite r) = True"
| "Number_isFinite PosInfinity = False"
| "Number_isFinite NegInfinity = False"
| "Number_isFinite NaN = False"

fun Number_isNaN :: "number \<Rightarrow> bool" where
  "Number_isNaN NaN = True"
| "Number_isNaN (Finite r) = False"
| "Number_isNaN PosInfinity = False"
| "Number_isNaN NegInfinity = False"

subsection \<open>Strings: trimming, lower case\<close>

text \<open>
  The white space of \<^verbatim>\<open>String.prototype.trim\<close> and of the numeric string grammar: TAB, LF,
  VT, FF, CR, SP and NBSP are the code units below 256 that belong to it.
\<close>

definition StrWhiteSpaceChar :: "char \<Rightarrow> bool" where
  "StrWhiteSpaceChar c \<longleftrightarrow> (of_char c :: nat) \<in> {9, 10, 11, 12, 13, 32, 160}"

definition trim :: "string \<Rightarrow> string" where
  "trim s = rev (dropWhile StrWhiteSpaceChar (rev (dropWhile StrWhiteSpaceChar s)))"

text \<open>
  \<^verbatim>\<open>String.prototype.toLowerCase\<close>: below 256 the letters with a lower-case partner are
  A to Z and the Latin-1 capitals 0xC0 to 0xDE without the multiplication sign 0xD7; the
  partner is 32 code units further, which is the bit of weight 32 set.
\<close>

definition has_lower_case :: "char \<Rightarrow> bool" where
  "has_lower_case c \<longleftrightarrow>
     (let n = (of_char c :: nat)
      in (65 \<le> n \<and> n \<le> 90) \<or> (192 \<le> n \<and> n \<le> 222 \<and> n \<noteq> 215))"

fun set_bit5 :: "char \<Rightarrow> char" where
  "set_bit5 (Char b0 b1 b2 b3 b4 b5 b6 b7) = Char b0 b1 b2 b3 b4 True b6 b7"

definition toLowerCase_char :: "char \<Rightarrow> char" where
  "toLowerCase_char c = (if has_lower_case c then set_bit5 c else c)"

definition toLowerCase :: "string \<Rightarrow> string" where
  "toLowerCase s = map toLowerCase_char s"

subsection \<open>\<^verbatim>\<open>Number(string)\<close>\<close>

text \<open>
  The conversion of a string to a number (StringToNumber of ECMAScript): white space is
  trimmed, the empty string is 0, and the rest is a signed decimal literal (with
  \<^verbatim>\<open>Infinity\<close>, an optional fraction and an optional exponent) or an unsigned binary, octal
  or hexadecimal integer literal; everything else is NaN.
\<close>

definition DecimalDigit :: "char \<Rightarrow> bool" where
  "DecimalDigit c \<longleftrightarrow> 48 \<le> (of_char c :: nat) \<and> (of_char c :: nat) \<le> 57"

definition digit_of :: "char \<Rightarrow> nat option" where
  "digit_of c =
     (let n = (of_char c :: nat)
      in if 48 \<le> n \<and> n \<le> 57 then Some (n - 48)
         else if 97 \<le> n \<and> n \<le> 102 then Some (n - 87)
         else if 65 \<le> n \<and> n \<le> 70 then Some (n - 55)
         else None)"

definition digit_in_base :: "nat \<Rightarrow> char \<Rightarrow> bool" where
  "digit_in_base b c = (case digit_of c of None \<Rightarrow> False | Some d \<Rightarrow> d < b)"

definition digits_value :: "nat \<Rightarrow> string \<Rightarrow> nat" where
  "digits_value b s = foldl (\<lambda>acc c. acc * b + (case digit_of c of None \<Rightarrow> 0 | Some d \<Rightarrow> d)) 0 s"

definition scale10 :: "nat \<Rightarrow> int \<Rightarrow> real" where
  "scale10 m e = (if 0 \<le> e then real m * 10 ^ nat e else real m / 10 ^ nat (- e))"

text \<open>
  A magnitude of at least \<open>2 ^ 1024 - 2 ^ 970\<close> (the largest binary64 number and half a unit
  in its last place) is read as infinity.
\<close>

definition in_binary64_range :: "real \<Rightarrow> number" where
  "in_binary64_range r =
     (if 2 ^ 1024 - 2 ^ 970 \<le> \<bar>r\<bar> then (if r < 0 then NegInfinity else PosInfinity)
      else Finite r)"

definition ExponentPart :: "string \<Rightarrow> int option" where
  "ExponentPart s =
     (case s of
        [] \<Rightarrow> Some 0
      | c # r \<Rightarrow>
          if c = CHR ''e'' \<or> c = CHR ''E'' then
            (case r of
               [] \<Rightarrow> None
             | d # ds \<Rightarrow>
                 if d = CHR ''+'' then
                   (if ds \<noteq> [] \<and> list_all DecimalDigit ds then Some (int (digits_value 10 ds)) else None)
                 else if d = CHR ''-'' then
                   (if ds \<noteq> [] \<and> list_all DecimalDigit ds then Some (- int (digits_value 10 ds)) else None)
                 else
                   (if list_all DecimalDigit r then Some (int (digits_value 10 r)) else None))
          else None)"

definition StrUnsignedDecimalLiteral :: "string \<Rightarrow> number" where
  "StrUnsignedDecimalLiteral s =
     (if s = ''Infinity'' then PosInfinity
      else
        let ip = takeWhile DecimalDigit s;
            r1 = dropWhile DecimalDigit s;
            fp = (case r1 of [] \<Rightarrow> [] | c # r \<Rightarrow> if c = CHR ''.'' then takeWhile DecimalDigit r else []);
            r2 = (case r1 of [] \<Rightarrow> [] | c # r \<Rightarrow> if c = CHR ''.'' then dropWhile DecimalDigit r else r1)
        in if ip = [] \<and> fp = [] then NaN
           else (case ExponentPart r2 of
                   None \<Rightarrow> NaN
                 | Some e \<Rightarrow>
                     in_binary64_range (scale10 (digits_value 10 (ip @ fp)) (e - int (length fp)))))"

fun negate :: "number \<Rightarrow> number" where
  "negate (Finite r) = Finite (- r)"
| "negate PosInfinity = NegInfinity"
| "negate NegInfinity = PosInfinity"
| "negate NaN = NaN"

definition StrDecimalLiteral :: "string \<Rightarrow> number" where
  "StrDecimalLiteral s =
     (case s of
        [] \<Rightarrow> NaN
      | c # r \<Rightarrow>
          if c = CHR ''+'' then StrUnsignedDecimalLiteral r
          else if c = CHR ''-'' then negate (StrUnsignedDecimalLiteral r)
          else StrUnsignedDecimalLiteral s)"

definition radix_of_prefix :: "string \<Rightarrow> nat option" where
  "radix_of_prefix s =
     (case s of
        c # x # r \<Rightarrow>
          if c = CHR ''0'' then
            (if x = CHR ''x'' \<or> x = CHR ''X'' then Some 16
             else if x = CHR ''o'' \<or> x = CHR ''O'' then Some 8
             else if x = CHR ''b'' \<or> x = CHR ''B'' then Some 2
             else None)
          else None
      | _ \<Rightarrow> None)"

definition StringToNumber :: "string \<Rightarrow> number" where
  "StringToNumber s =
     (let t = trim s
      in if t = [] then Finite 0
         else (case radix_of_prefix t of
                 Some b \<Rightarrow>
                   (let ds = drop 2 t
                    in if ds \<noteq> [] \<and> list_all (digit_in_base b) ds
                       then in_binary64_range (real (digits_value b ds)) else NaN)
               | None \<Rightarrow> StrDecimalLiteral t))"

subsection \<open>The value helpers of the route\<close>

fun isNumericLike :: "jsval \<Rightarrow> bool" where
  "isNumericLike JNull = False"
| "isNumericLike JUndefined = False"
| "isNumericLike (JNumber n) = Number_isFinite n"
| "isNumericLike (JString s) =
     (let trimmed = trim s
      in if trimmed = [] then False else \<not> Number_isNaN (StringToNumber trimmed))"
| "isNumericLike (JBoolean b) = False"

text \<open>
  \<^verbatim>\<open>toNumber\<close> answers with a finite number on every path, so its result is a real.
\<close>

fun toNumber :: "jsval \<Rightarrow> real" where
  "toNumber (JNumber n) = (case n of Finite r \<Rightarrow> r | _ \<Rightarrow> 0)"
| "toNumber (JString s) = (case StringToNumber s of Finite r \<Rightarrow> r | _ \<Rightarrow> 0)"
| "toNumber JUndefined = 0"
| "toNumber JNull = 0"
| "toNumber (JBoolean b) = 0"


subsection \<open>\<^verbatim>\<open>String(value)\<close>\<close>

text \<open>
  The text of a number: an integer of magnitude at most \<open>2 ^ 53\<close> prints as its decimal
  digits. The text of any other finite number is the shortest digit string that reads back
  as the same binary64 value, which the exact numbers of this model do not determine: it is
  the parameter \<open>nts\<close> of every function that converts a value to text.
\<close>

fun nat_digits :: "nat \<Rightarrow> string" where
  "nat_digits n =
     (if n < 10 then [''0123456789'' ! n]
      else nat_digits (n div 10) @ [''0123456789'' ! (n mod 10)])"

declare nat_digits.simps [simp del]

definition Number_toString :: "(real \<Rightarrow> string) \<Rightarrow> number \<Rightarrow> string" where
  "Number_toString nts n =
     (case n of
        NaN \<Rightarrow> ''NaN''
      | PosInfinity \<Rightarrow> ''Infinity''
      | NegInfinity \<Rightarrow> ''-Infinity''
      | Finite r \<Rightarrow>
          if r = of_int \<lfloor>r\<rfloor> \<and> \<bar>r\<bar> \<le> 2 ^ 53
          then (if r < 0 then CHR ''-'' # nat_digits (nat (- \<lfloor>r\<rfloor>)) else nat_digits (nat \<lfloor>r\<rfloor>))
          else nts r)"

fun js_String :: "(real \<Rightarrow> string) \<Rightarrow> jsval \<Rightarrow> string" where
  "js_String nts JUndefined = ''undefined''"
| "js_String nts JNull = ''null''"
| "js_String nts (JBoolean b) = (if b then ''true'' else ''false'')"
| "js_String nts (JNumber n) = Number_toString nts n"
| "js_String nts (JString s) = s"

subsection \<open>Rows\<close>

text \<open>
  \<^verbatim>\<open>DatasetRow\<close> is \<^verbatim>\<open>Record<string, unknown>\<close>: the list of the row's own properties in
  enumeration order. The handler reads rows through \<^verbatim>\<open>row?.[key]\<close>, so an element of the
  dataset may also be null: that is \<open>None\<close>.

  Reading a key that is not an own property gives \<^verbatim>\<open>undefined\<close>. For the member names of
  \<^verbatim>\<open>Object.prototype\<close> JavaScript gives the inherited function instead; the handler passes
  such a value only to \<open>isNumericLike\<close> and \<open>toNumber\<close>, which answer for a function what
  they answer for \<^verbatim>\<open>undefined\<close>, and the two fixed field names are not member names.
\<close>

type_synonym DatasetRow = "(string \<times> jsval) list option"

definition row_get :: "DatasetRow \<Rightarrow> string \<Rightarrow> jsval" where
  "row_get row key =
     (case row of
        None \<Rightarrow> JUndefined
      | Some kvs \<Rightarrow> (case map_of kvs key of None \<Rightarrow> JUndefined | Some v \<Rightarrow> v))"

text \<open>The operator \<^verbatim>\<open>??\<close>: the right operand replaces null and undefined only.\<close>

fun nullish_or :: "jsval \<Rightarrow> jsval \<Rightarrow> jsval" where
  "nullish_or JUndefined d = d"
| "nullish_or JNull d = d"
| "nullish_or v d = v"

definition Object_keys :: "DatasetRow \<Rightarrow> string list" where
  "Object_keys row = (case row of None \<Rightarrow> [] | Some kvs \<Rightarrow> map fst kvs)"

definition ATTRITION_FIELD :: string where
  "ATTRITION_FIELD = ''Attrition''"

definition DEPARTMENT_FIELD :: string where
  "DEPARTMENT_FIELD = ''Department''"

definition IGNORE_NUMERIC_COLUMNS :: "string list" where
  "IGNORE_NUMERIC_COLUMNS = [''employeenumber'', ''employeeid'']"

subsection \<open>Attrition count and department statistics\<close>

definition attrited :: "(real \<Rightarrow> string) \<Rightarrow> DatasetRow \<Rightarrow> bool" where
  "attrited nts row =
     (let attrRaw = toLowerCase (js_String nts (nullish_or (row_get row ATTRITION_FIELD) (JString [])))
      in attrRaw = ''yes'' \<or> attrRaw = ''1'' \<or> attrRaw = ''true'')"

definition department_of :: "(real \<Rightarrow> string) \<Rightarrow> DatasetRow \<Rightarrow> string" where
  "department_of nts row =
     js_String nts (nullish_or (row_get row DEPARTMENT_FIELD) (JString ''Unknown Department''))"

text \<open>
  \<^verbatim>\<open>departmentStats\<close> is an object literal \<^verbatim>\<open>{}\<close> used as a dictionary. Its own properties
  are kept in creation order as triples of the key, \<^verbatim>\<open>count\<close> and \<^verbatim>\<open>attr\<close>. Being an
  ordinary object it inherits the members of \<^verbatim>\<open>Object.prototype\<close>: for these names
  \<^verbatim>\<open>departmentStats[department]\<close> is a function (or the prototype itself), which is truthy,
  so no own property is created and the two counters are written on the inherited value.
\<close>

type_synonym departmentStats = "(string \<times> nat \<times> nat) list"

definition Object_prototype_members :: "string list" where
  "Object_prototype_members =
     [''constructor'', ''__defineGetter__'', ''__defineSetter__'', ''hasOwnProperty'',
      ''__lookupGetter__'', ''__lookupSetter__'', ''isPrototypeOf'', ''propertyIsEnumerable'',
      ''toString'', ''valueOf'', ''__proto__'', ''toLocaleString'']"

definition count_department :: "string \<Rightarrow> bool \<Rightarrow> departmentStats \<Rightarrow> departmentStats" where
  "count_department dep attrited_row stats =
     (if dep \<in> set Object_prototype_members then stats
      else
        let stats1 = (if map_of stats dep = None then stats @ [(dep, 0, 0)] else stats)
        in map (\<lambda>(k, cnt, attr).
                  if k = dep then (k, cnt + 1, if attrited_row then attr + 1 else attr)
                  else (k, cnt, attr)) stats1)"

text \<open>The body of \<^verbatim>\<open>dataset.forEach\<close>, on the pair of \<^verbatim>\<open>attritionCount\<close> and \<^verbatim>\<open>departmentStats\<close>.\<close>

definition forEach_body ::
    "(real \<Rightarrow> string) \<Rightarrow> nat \<times> departmentStats \<Rightarrow> DatasetRow \<Rightarrow> nat \<times> departmentStats" where
  "forEach_body nts st row =
     (let a = attrited nts row
      in ((if a then fst st + 1 else fst st), count_department (department_of nts row) a (snd st)))"

definition tally :: "(real \<Rightarrow> string) \<Rightarrow> DatasetRow list \<Rightarrow> nat \<times> departmentStats" where
  "tally nts dataset = foldl (forEach_body nts) (0, []) dataset"

text \<open>
  \<^verbatim>\<open>Number(x.toFixed(2))\<close>: the multiple of one hundredth nearest to \<open>x\<close>, the larger one
  (in magnitude) of two equally near ones; from \<open>10 ^ 21\<close> on \<^verbatim>\<open>toFixed\<close> prints the number
  itself.
\<close>

definition Number_toFixed2 :: "real \<Rightarrow> real" where
  "Number_toFixed2 x =
     (if 10 ^ 21 \<le> \<bar>x\<bar> then x
      else if x < 0 then - (of_int \<lfloor>- x * 100 + 1 / 2\<rfloor> / 100)
      else of_int \<lfloor>x * 100 + 1 / 2\<rfloor> / 100)"

text \<open>
  \<^verbatim>\<open>Array.prototype.sort\<close> with a comparison function is stable: an element goes in front of
  the first element that the comparison does not put before it.
\<close>

fun insert_sorted :: "('a \<Rightarrow> 'a \<Rightarrow> real) \<Rightarrow> 'a \<Rightarrow> 'a list \<Rightarrow> 'a list" where
  "insert_sorted cmp x [] = [x]"
| "insert_sorted cmp x (y # ys) =
     (if cmp x y \<le> 0 then x # y # ys else y # insert_sorted cmp x ys)"

definition Array_sort :: "('a \<Rightarrow> 'a \<Rightarrow> real) \<Rightarrow> 'a list \<Rightarrow> 'a list" where
  "Array_sort cmp xs = foldr (insert_sorted cmp) xs []"

text \<open>
  \<^verbatim>\<open>Object.entries\<close> enumerates the keys that are array indices first, in ascending numeric
  order, and then the other keys in creation order. An array index is the canonical decimal
  text of an integer below \<open>2 ^ 32 - 1\<close>.
\<close>

definition is_array_index :: "string \<Rightarrow> bool" where
  "is_array_index s \<longleftrightarrow>
     s \<noteq> [] \<and> list_all DecimalDigit s \<and> (s = ''0'' \<or> hd s \<noteq> CHR ''0'')
     \<and> digits_value 10 s < 4294967295"

definition Object_entries :: "departmentStats \<Rightarrow> departmentStats" where
  "Object_entries stats =
     sort_key (\<lambda>e. digits_value 10 (fst e)) (filter (\<lambda>e. is_array_index (fst e)) stats)
     @ filter (\<lambda>e. \<not> is_array_index (fst e)) stats"

record DepartmentSummary =
  department :: string
  count :: nat
  attritionRate :: real

definition summary_of :: "string \<times> nat \<times> nat \<Rightarrow> DepartmentSummary" where
  "summary_of e =
     (case e of (dep, cnt, attr) \<Rightarrow>
        \<lparr>department = dep, count = cnt,
         attritionRate = Number_toFixed2 (real attr / real cnt * 100)\<rparr>)"

definition departmentSummaries :: "(real \<Rightarrow> string) \<Rightarrow> DatasetRow list \<Rightarrow> DepartmentSummary list" where
  "departmentSummaries nts dataset =
     Array_sort (\<lambda>a b. attritionRate b - attritionRate a)
       (map summary_of (Object_entries (snd (tally nts dataset))))"

definition topDepartments :: "(real \<Rightarrow> string) \<Rightarrow> DatasetRow list \<Rightarrow> DepartmentSummary list" where
  "topDepartments nts dataset = take 5 (departmentSummaries nts dataset)"

definition overallAttritionRate :: "(real \<Rightarrow> string) \<Rightarrow> DatasetRow list \<Rightarrow> real" where
  "overallAttritionRate nts dataset =
     Number_toFixed2 (real (fst (tally nts dataset)) / real (length dataset) * 100)"

subsection \<open>Numeric columns\<close>

text \<open>\<^verbatim>\<open>Object.keys(dataset[0] ?? {})\<close>.\<close>

definition candidateColumns :: "DatasetRow list \<Rightarrow> string list" where
  "candidateColumns dataset = (case dataset of [] \<Rightarrow> [] | row0 # _ \<Rightarrow> Object_keys row0)"

definition numericCount :: "DatasetRow list \<Rightarrow> string \<Rightarrow> nat" where
  "numericCount dataset column =
     foldl (\<lambda>acc row. if isNumericLike (row_get row column) then acc + 1 else acc) 0 dataset"

definition numericCols :: "DatasetRow list \<Rightarrow> string list" where
  "numericCols dataset =
     filter (\<lambda>column.
               if toLowerCase column \<in> set IGNORE_NUMERIC_COLUMNS then False
               else 7 / 10 \<le> real (numericCount dataset column) / real (length dataset))
            (candidateColumns dataset)"

subsection \<open>Normalisation\<close>

definition numericMatrix :: "DatasetRow list \<Rightarrow> real list list" where
  "numericMatrix dataset =
     map (\<lambda>row. map (\<lambda>column. toNumber (row_get row column)) (numericCols dataset)) dataset"

text \<open>\<^verbatim>\<open>xs[i] ?? 0\<close> on an array of numbers.\<close>

definition nth_or0 :: "real list \<Rightarrow> nat \<Rightarrow> real" where
  "nth_or0 xs i = (if i < length xs then xs ! i else 0)"

definition means :: "DatasetRow list \<Rightarrow> real list" where
  "means dataset =
     map (\<lambda>columnIndex.
            foldl (\<lambda>acc numericRow. acc + nth_or0 numericRow columnIndex) 0 (numericMatrix dataset)
            / real (length (numericMatrix dataset)))
         [0 ..< length (numericCols dataset)]"

definition stdDevs :: "DatasetRow list \<Rightarrow> real list" where
  "stdDevs dataset =
     map (\<lambda>columnIndex.
            let mean = means dataset ! columnIndex;
                variance =
                  foldl (\<lambda>acc numericRow. acc + (nth_or0 numericRow columnIndex - mean) ^ 2) 0
                        (numericMatrix dataset)
                  / real (length (numericMatrix dataset));
                std = sqrt variance
            in if 0 < std then std else 1)
         [0 ..< length (numericCols dataset)]"

text \<open>
  Every row of the numeric matrix has one entry per numeric column, as \<open>means\<close> and
  \<open>stdDevs\<close> have, so the two reads by \<open>columnIndex\<close> below are in range
  (lemmas \<open>length_means\<close>, \<open>length_stdDevs\<close> and \<open>length_numericMatrix_row\<close>).
\<close>

definition normalizedMatrix :: "DatasetRow list \<Rightarrow> real list list" where
  "normalizedMatrix dataset =
     map (\<lambda>numericRow.
            map (\<lambda>(v, columnIndex). (v - means dataset ! columnIndex) / stdDevs dataset ! columnIndex)
                (zip numericRow [0 ..< length numericRow]))
         (numericMatrix dataset)"

subsection \<open>Neighbours\<close>

text \<open>
  \<^verbatim>\<open>xs[index]\<close> for a number \<^verbatim>\<open>index\<close>: an element when the number is an integer position of
  the array, \<^verbatim>\<open>undefined\<close> (here \<open>None\<close>) otherwise.
\<close>

definition Array_get :: "'a list \<Rightarrow> number \<Rightarrow> 'a option" where
  "Array_get xs i =
     (case i of
        Finite r \<Rightarrow>
          if 0 \<le> r \<and> r = of_int \<lfloor>r\<rfloor> \<and> nat \<lfloor>r\<rfloor> < length xs then Some (xs ! nat \<lfloor>r\<rfloor>) else None
      | _ \<Rightarrow> None)"

record SimilarEmployee =
  index :: nat
  distance :: real
  row :: DatasetRow

text \<open>
  The distance of one row to the target. Reading \<^verbatim>\<open>target[columnIndex]\<close> throws a
  \<^verbatim>\<open>TypeError\<close> when \<^verbatim>\<open>target\<close> is \<^verbatim>\<open>undefined\<close>; the callback of \<^verbatim>\<open>reduce\<close> runs once for
  each entry of the row, so the error needs a row that is not empty. \<open>None\<close> is the error.
\<close>

definition distance_to :: "real list option \<Rightarrow> real list \<Rightarrow> real option" where
  "distance_to target numericRow =
     (case target of
        None \<Rightarrow> if numericRow = [] then Some (sqrt 0) else None
      | Some t \<Rightarrow>
          Some (sqrt (foldl (\<lambda>acc (v, columnIndex).
                               let diff = v - nth_or0 t columnIndex in acc + diff * diff)
                            0 (zip numericRow [0 ..< length numericRow]))))"

definition distances :: "DatasetRow list \<Rightarrow> number \<Rightarrow> SimilarEmployee list option" where
  "distances dataset idx =
     (let target = Array_get (normalizedMatrix dataset) idx
      in map_option (Array_sort (\<lambda>a b. distance a - distance b))
           (those (map (\<lambda>(numericRow, rowIndex).
                          map_option (\<lambda>d. \<lparr>index = rowIndex, distance = d, row = dataset ! rowIndex\<rparr>)
                                     (distance_to target numericRow))
                       (zip (normalizedMatrix dataset) [0 ..< length (normalizedMatrix dataset)]))))"

text \<open>\<^verbatim>\<open>distances.filter((entry) => entry.index !== index).slice(0, 10)\<close>.\<close>

definition similar_of :: "SimilarEmployee list \<Rightarrow> number \<Rightarrow> SimilarEmployee list" where
  "similar_of ds idx = take 10 (filter (\<lambda>entry. Finite (real (index entry)) \<noteq> idx) ds)"

subsection \<open>The handler\<close>

record AnalyzePayload =
  dataset :: "DatasetRow list option"
  target_index :: "number option"

record Summary =
  total :: nat
  overall_attritionRate :: real
  top_departments :: "DepartmentSummary list"
  numeric_cols :: "string list"

record AnalyzeResponse =
  summary :: Summary
  employee :: "DatasetRow option"
  similar :: "SimilarEmployee list"

text \<open>
  The three answers of the handler: status 400 with its message for a request that fails
  validation, status 500 for an exception caught by the \<^verbatim>\<open>catch\<close> block, and status 200 with
  the analysis.
\<close>

datatype response =
    Status400 string
  | Status500 string
  | Status200 AnalyzeResponse

text \<open>The comparisons \<^verbatim>\<open>index < 0\<close> and \<^verbatim>\<open>index >= dataset.length\<close>; both are false for NaN.\<close>

fun less_than :: "number \<Rightarrow> real \<Rightarrow> bool" where
  "less_than (Finite r) b = (r < b)"
| "less_than NegInfinity b = True"
| "less_than PosInfinity b = False"
| "less_than NaN b = False"

fun at_least :: "number \<Rightarrow> real \<Rightarrow> bool" where
  "at_least (Finite r) b = (b \<le> r)"
| "at_least PosInfinity b = True"
| "at_least NegInfinity b = False"
| "at_least NaN b = False"

text \<open>
  In \<open>AnalyzePayload\<close> the field \<open>dataset\<close> is \<open>None\<close> when \<^verbatim>\<open>body.dataset\<close> is not an array
  and \<open>target_index\<close> (the field \<^verbatim>\<open>index\<close>) is \<open>None\<close> when \<^verbatim>\<open>body.index\<close> is not a number.
  The fields of \<open>Summary\<close> are \<^verbatim>\<open>total\<close>, \<^verbatim>\<open>attritionRate\<close>, \<^verbatim>\<open>topDepartments\<close> and
  \<^verbatim>\<open>numericCols\<close> of the response.
\<close>

definition POST :: "(real \<Rightarrow> string) \<Rightarrow> AnalyzePayload \<Rightarrow> response" where
  "POST nts body =
     (case (dataset body, target_index body) of
        (Some ds, Some idx) \<Rightarrow>
          if ds = [] then Status400 ''Dataset is empty.''
          else if less_than idx 0 \<or> at_least idx (real (length ds))
          then Status400 ''Selected employee index is out of bounds.''
          else
            (case distances ds idx of
               None \<Rightarrow> Status500 ''Unable to analyze dataset.''
             | Some dists \<Rightarrow>
                 Status200
                   \<lparr>summary =
                      \<lparr>total = length ds,
                       overall_attritionRate = overallAttritionRate nts ds,
                       top_departments = topDepartments nts ds,
                       numeric_cols = numericCols ds\<rparr>,
                    employee = Array_get ds idx,
                    similar = similar_of dists idx\<rparr>)
      | _ \<Rightarrow> Status400 ''Payload must include dataset[] and numeric index.'')"

section \<open>Notions used in the statements and proofs\<close>

text \<open>The Euclidean distance of two vectors, and the list that the handler sorts.\<close>

definition euclidean :: "real list \<Rightarrow> real list \<Rightarrow> real" where
  "euclidean u v = sqrt (\<Sum>c<length u. (u ! c - v ! c) ^ 2)"

definition entries :: "DatasetRow list \<Rightarrow> nat \<Rightarrow> SimilarEmployee list" where
  "entries ds i =
     map (\<lambda>j. \<lparr>index = j,
               distance = euclidean (normalizedMatrix ds ! j) (normalizedMatrix ds ! i),
               row = ds ! j\<rparr>)
         [0 ..< length ds]"

text \<open>
  A stand-in for the text of the numbers whose text the model leaves open, for the closed
  examples; none of them converts such a number.
\<close>

definition nts0 :: "real \<Rightarrow> string" where
  "nts0 r = []"


text \<open>
  The coercion as claim C6 words it: a native number as it is, the parsed number of a
  string that parses, and 0 for a string that does not parse and for every other value.
\<close>

definition toNumber_as_claimed :: "jsval \<Rightarrow> number" where
  "toNumber_as_claimed v =
     (case v of
        JNumber n \<Rightarrow> n
      | JString s \<Rightarrow> (if Number_isNaN (StringToNumber s) then Finite 0 else StringToNumber s)
      | _ \<Rightarrow> Finite 0)"


text \<open>
  The attrition field of a record, converted to text and lower-cased, is one of
  \<^verbatim>\<open>yes\<close>, \<^verbatim>\<open>1\<close> and \<^verbatim>\<open>true\<close>; an absent or null field has no text.
\<close>

definition attrition_is_yes :: "(real \<Rightarrow> string) \<Rightarrow> DatasetRow \<Rightarrow> bool" where
  "attrition_is_yes nts r =
     (case row_get r ''Attrition'' of
        JUndefined \<Rightarrow> False
      | JNull \<Rightarrow> False
      | v \<Rightarrow> toLowerCase (js_String nts v) \<in> {''yes'', ''1'', ''true''})"






text \<open>
  Three records without a numeric column (one of them null, one with an attrition text that
  is no number), for the closed examples.
\<close>

definition labels_only :: "DatasetRow list" where
  "labels_only =
     [Some [(''Department'', JString ''Sales''), (''Attrition'', JString ''Yes'')],
      Some [(''Department'', JString ''Sales''), (''Attrition'', JString ''abc'')],
      None]"

text \<open>The distinct elements of a list, in the order of their first occurrence.\<close>

fun first_occurrences :: "'a list \<Rightarrow> 'a list" where
  "first_occurrences [] = []"
| "first_occurrences (x # xs) = x # filter (\<lambda>y. y \<noteq> x) (first_occurrences xs)"




text \<open>
  The department label of a record: the fixed label when the department field is absent
  or null, the text of the field otherwise.
\<close>

definition department_label :: "(real \<Rightarrow> string) \<Rightarrow> DatasetRow \<Rightarrow> string" where
  "department_label nts r =
     (case row_get r ''Department'' of
        JUndefined \<Rightarrow> ''Unknown Department''
      | JNull \<Rightarrow> ''Unknown Department''
      | v \<Rightarrow> js_String nts v)"

text \<open>
  The number of records of a department, the number of those with attrition, the rate of
  the department as a percentage rounded to two decimals, and its summary.
\<close>

definition department_count :: "(real \<Rightarrow> string) \<Rightarrow> DatasetRow list \<Rightarrow> string \<Rightarrow> nat" where
  "department_count nts ds d = length (filter (\<lambda>r. department_label nts r = d) ds)"

definition department_attrition :: "(real \<Rightarrow> string) \<Rightarrow> DatasetRow list \<Rightarrow> string \<Rightarrow> nat" where
  "department_attrition nts ds d =
     length (filter (\<lambda>r. department_label nts r = d \<and> attrition_is_yes nts r) ds)"

definition department_rate :: "(real \<Rightarrow> string) \<Rightarrow> DatasetRow list \<Rightarrow> string \<Rightarrow> real" where
  "department_rate nts ds d =
     Number_toFixed2 (real (department_attrition nts ds d) / real (department_count nts ds d) * 100)"

definition department_summary :: "(real \<Rightarrow> string) \<Rightarrow> DatasetRow list \<Rightarrow> string \<Rightarrow> DepartmentSummary" where
  "department_summary nts ds d =
     \<lparr>department = d, count = department_count nts ds d, attritionRate = department_rate nts ds d\<rparr>"



definition odd_labels :: "DatasetRow list" where
  "odd_labels =
     [Some [(''Department'', JString [])],
      Some [(''Department'', JNumber (Finite 0))],
      Some [(''Department'', JBoolean False)],
      Some [(''Department'', JNull)],
      Some [(''Department'', JString ''constructor'')]]"


section \<open>Properties\<close>

subsection \<open>Sorting, folds and shapes\<close>

lemma Array_sort_ascending: "Array_sort (\<lambda>a b. k a - k b) xs = sort_key k xs"
proof -
  have ins: "insert_sorted (\<lambda>a b. k a - k b) x ys = insort_key k x ys" for x ys
    by (induction ys) auto
  show ?thesis
    unfolding Array_sort_def sort_key_def by (induction xs) (simp_all add: ins)
qed


lemma sort_key_constant: "(\<And>x. x \<in> set xs \<Longrightarrow> k x = c) \<Longrightarrow> sort_key k xs = xs"
proof (induction xs)
  case Nil
  then show ?case by simp
next
  case (Cons x xs)
  then have "sort_key k xs = xs" by simp
  moreover have "insort_key k x xs = x # xs"
    by (rule insort_is_Cons) (simp add: Cons.prems)
  ultimately show ?case by simp
qed



lemma those_map_Some: "those (map (\<lambda>x. Some (f x)) xs) = Some (map f xs)"
  by (induction xs) simp_all

lemma length_numericMatrix [simp]: "length (numericMatrix ds) = length ds"
  by (simp add: numericMatrix_def)

lemma length_numericMatrix_row:
  "j < length ds \<Longrightarrow> length (numericMatrix ds ! j) = length (numericCols ds)"
  by (simp add: numericMatrix_def)


lemma length_means [simp]: "length (means ds) = length (numericCols ds)"
  by (simp add: means_def)

lemma length_stdDevs [simp]: "length (stdDevs ds) = length (numericCols ds)"
  by (simp add: stdDevs_def)

lemma length_normalizedMatrix [simp]: "length (normalizedMatrix ds) = length ds"
  by (simp add: normalizedMatrix_def)

lemma length_normalizedMatrix_row:
  "j < length ds \<Longrightarrow> length (normalizedMatrix ds ! j) = length (numericCols ds)"
  by (simp add: normalizedMatrix_def length_numericMatrix_row)

lemma stdDevs_positive: "c < length (numericCols ds) \<Longrightarrow> 0 < stdDevs ds ! c"
  by (simp add: stdDevs_def Let_def)


lemma zip_positions: "zip xs [0 ..< length xs] = map (\<lambda>j. (xs ! j, j)) [0 ..< length xs]"
  by (rule nth_equalityI) simp_all

lemma foldl_plus: "foldl (\<lambda>acc x. acc + f x) a xs = a + sum_list (map f xs)"
  for a :: real
  by (induction xs arbitrary: a) simp_all

lemma foldl_rows_sum:
  "foldl (\<lambda>acc x. acc + f x) 0 xs = (\<Sum>j<length xs. f (xs ! j))"
  for f :: "'a \<Rightarrow> real"
proof -
  have "sum_list (map f xs) = (\<Sum>j = 0..<length xs. map f xs ! j)"
    using sum_list_sum_nth [of "map f xs"] by simp
  also have "\<dots> = (\<Sum>j<length xs. f (xs ! j))"
    by (rule sum.cong) (auto simp: atLeast0LessThan)
  finally show ?thesis by (simp add: foldl_plus)
qed

lemma foldl_zip_positions:
  "foldl (\<lambda>acc (v, c). acc + g v c) 0 (zip xs [0 ..< length xs]) = (\<Sum>c<length xs. g (xs ! c) c)"
  for g :: "'a \<Rightarrow> nat \<Rightarrow> real"
proof -
  have "foldl (\<lambda>acc (v, c). acc + g v c) 0 (zip xs [0 ..< length xs])
        = foldl (\<lambda>acc p. acc + (case p of (v, c) \<Rightarrow> g v c)) 0 (zip xs [0 ..< length xs])"
    by (simp add: case_prod_unfold)
  also have "\<dots> = (\<Sum>j<length xs. (case zip xs [0 ..< length xs] ! j of (v, c) \<Rightarrow> g v c))"
    using foldl_rows_sum [of "\<lambda>p. case p of (v, c) \<Rightarrow> g v c" "zip xs [0 ..< length xs]"] by simp
  also have "\<dots> = (\<Sum>c<length xs. g (xs ! c) c)"
    by (rule sum.cong) simp_all
  finally show ?thesis .
qed

lemma distance_to_target:
  "length t = length u \<Longrightarrow> distance_to (Some t) u = Some (euclidean u t)"
proof -
  assume len: "length t = length u"
  have "foldl (\<lambda>acc (v, columnIndex). let diff = v - nth_or0 t columnIndex in acc + diff * diff)
          0 (zip u [0 ..< length u])
        = (\<Sum>c<length u. (u ! c - nth_or0 t c) * (u ! c - nth_or0 t c))"
    using foldl_zip_positions [of "\<lambda>v c. (v - nth_or0 t c) * (v - nth_or0 t c)" u]
    by (simp add: Let_def)
  also have "\<dots> = (\<Sum>c<length u. (u ! c - t ! c) ^ 2)"
    by (rule sum.cong) (simp_all add: nth_or0_def len power2_eq_square)
  finally show ?thesis by (simp add: distance_to_def euclidean_def)
qed

lemma Array_get_position: "i < length xs \<Longrightarrow> Array_get xs (Finite (real i)) = Some (xs ! i)"
  by (simp add: Array_get_def)

lemma distances_valid:
  assumes "i < length ds"
  shows "distances ds (Finite (real i)) = Some (sort_key distance (entries ds i))"
proof -
  let ?nm = "normalizedMatrix ds"
  let ?f = "\<lambda>(numericRow, rowIndex).
              map_option (\<lambda>d. \<lparr>index = rowIndex, distance = d, row = ds ! rowIndex\<rparr>)
                         (distance_to (Some (?nm ! i)) numericRow)"
  have "map ?f (zip ?nm [0 ..< length ?nm])
        = map (\<lambda>j. Some \<lparr>index = j, distance = euclidean (?nm ! j) (?nm ! i), row = ds ! j\<rparr>)
              [0 ..< length ds]"
    using assms
    by (intro nth_equalityI) (simp_all add: distance_to_target length_normalizedMatrix_row)
  then have "those (map ?f (zip ?nm [0 ..< length ?nm])) = Some (entries ds i)"
    by (simp add: those_map_Some entries_def)
  then show ?thesis
    using assms
    by (simp add: distances_def Array_get_position Array_sort_ascending)
qed

lemma POST_valid:
  assumes "i < length ds"
  shows "POST nts \<lparr>dataset = Some ds, target_index = Some (Finite (real i))\<rparr>
         = Status200
             \<lparr>summary =
                \<lparr>total = length ds,
                 overall_attritionRate = overallAttritionRate nts ds,
                 top_departments = topDepartments nts ds,
                 numeric_cols = numericCols ds\<rparr>,
              employee = Some (ds ! i),
              similar = similar_of (sort_key distance (entries ds i)) (Finite (real i))\<rparr>"
proof -
  have "ds \<noteq> []" using assms by auto
  then show ?thesis
    using assms by (simp add: POST_def distances_valid Array_get_position)
qed

lemmas StringToNumber_defs =
  StringToNumber_def trim_def StrWhiteSpaceChar_def radix_of_prefix_def StrDecimalLiteral_def
  StrUnsignedDecimalLiteral_def DecimalDigit_def ExponentPart_def digits_value_def digit_of_def
  scale10_def digit_in_base_def in_binary64_range_def





lemmas toLowerCase_defs = toLowerCase_def toLowerCase_char_def has_lower_case_def


subsection \<open>The value helpers\<close>

text \<open>What \<open>isNumericLike\<close> accepts: the finite numbers, and the strings that are not empty
  after trimming and whose number is not NaN.\<close>

lemma isNumericLike_cases:
  "isNumericLike v \<longleftrightarrow>
     (\<exists>r. v = JNumber (Finite r))
     \<or> (\<exists>s. v = JString s \<and> trim s \<noteq> [] \<and> StringToNumber (trim s) \<noteq> NaN)"
proof (cases v)
  case (JNumber n)
  then show ?thesis by (cases n) simp_all
next
  case (JString s)
  then show ?thesis by (cases "StringToNumber (trim s)") (simp_all add: Let_def)
qed simp_all

text \<open>
  Claim C4: \<open>isNumericLike\<close> accepts a value exactly when it is a finite number, or a string
  that is not empty after trimming and parses fully to a finite number. The string branch
  tests the parsed number for NaN only, where the number branch and \<open>toNumber\<close> test for
  finiteness: the text \<^verbatim>\<open>Infinity\<close> parses to positive infinity and is accepted, while the
  number infinity is refused and \<open>toNumber\<close> maps the same text to 0.
\<close>

theorem isNumericLike_Infinity_text:
  "isNumericLike (JString ''Infinity'')
   \<and> StringToNumber ''Infinity'' = PosInfinity
   \<and> \<not> isNumericLike (JNumber PosInfinity)
   \<and> toNumber (JString ''Infinity'') = 0"
  by (simp add: StringToNumber_defs)


text \<open>
  Claim C6 as it is stated lets \<open>toNumber\<close> return every native number as it is. The
  number infinity, which a JSON body can carry as \<^verbatim>\<open>1e999\<close>, is mapped to 0.
\<close>

theorem toNumber_not_as_is:
  "toNumber_as_claimed (JNumber PosInfinity) = PosInfinity
   \<and> toNumber (JNumber PosInfinity) = 0
   \<and> Finite (toNumber (JNumber PosInfinity)) \<noteq> toNumber_as_claimed (JNumber PosInfinity)"
  by (simp add: toNumber_as_claimed_def)

text \<open>
  Claim C6, as amended: \<open>toNumber\<close> returns a native number that is finite as it is, the
  parsed number of a string that parses to a finite number, and 0 for every other value:
  a native number that is not finite, a string that does not parse to a finite number,
  null, an absent value, a boolean.
\<close>

theorem toNumber_finite_or_zero:
  "(\<forall>r. toNumber (JNumber (Finite r)) = r)
   \<and> (\<forall>s r. StringToNumber s = Finite r \<longrightarrow> toNumber (JString s) = r)
   \<and> (\<forall>v. (\<forall>r. v \<noteq> JNumber (Finite r)) \<and> (\<forall>s r. v = JString s \<longrightarrow> StringToNumber s \<noteq> Finite r)
          \<longrightarrow> toNumber v = 0)"
proof (intro conjI allI impI)
  fix r show "toNumber (JNumber (Finite r)) = r" by simp
next
  fix s r assume "StringToNumber s = Finite r"
  then show "toNumber (JString s) = r" by simp
next
  fix v
  assume h: "(\<forall>r. v \<noteq> JNumber (Finite r)) \<and> (\<forall>s r. v = JString s \<longrightarrow> StringToNumber s \<noteq> Finite r)"
  show "toNumber v = 0"
  proof (cases v)
    case (JNumber n)
    then show ?thesis using h by (cases n) simp_all
  next
    case (JString s)
    then show ?thesis using h by (cases "StringToNumber s") simp_all
  qed simp_all
qed

theorem toNumber_finite_or_zero_witness:
  "toNumber (JNumber (Finite 30)) = 30
   \<and> StringToNumber '' 41 '' = Finite 41 \<and> toNumber (JString '' 41 '') = 41
   \<and> StringToNumber ''abc'' = NaN \<and> toNumber (JString ''abc'') = 0
   \<and> toNumber (JBoolean True) = 0"
proof -
  have p: "StringToNumber '' 41 '' = Finite 41" by (simp add: StringToNumber_defs)
  have q: "StringToNumber ''abc'' = NaN" by (simp add: StringToNumber_defs)
  from toNumber_finite_or_zero have a: "toNumber (JNumber (Finite 30)) = 30" by blast
  from toNumber_finite_or_zero p have b: "toNumber (JString '' 41 '') = 41" by blast
  from toNumber_finite_or_zero have
    c: "(\<forall>r. v \<noteq> JNumber (Finite r)) \<and> (\<forall>s r. v = JString s \<longrightarrow> StringToNumber s \<noteq> Finite r)
          \<Longrightarrow> toNumber v = 0" for v by blast
  have d: "toNumber (JString ''abc'') = 0" by (rule c) (simp add: q)
  have e: "toNumber (JBoolean True) = 0" by (rule c) simp
  show ?thesis using a b d e p q by simp
qed

subsection \<open>Validation of the request\<close>






subsection \<open>The numeric columns\<close>




subsection \<open>The overall attrition rate\<close>



lemma toLowerCase_Nil [simp]: "toLowerCase [] = []"
  by (simp add: toLowerCase_def)






subsection \<open>Means, standard deviations and normalised values\<close>










subsection \<open>The neighbour list\<close>


lemma similar_of_position:
  "similar_of es (Finite (real i)) = take 10 (filter (\<lambda>e. index e \<noteq> i) es)"
  by (simp add: similar_of_def)

lemma others_sorted:
  "filter (\<lambda>e. index e \<noteq> i) (sort_key distance (entries ds i))
   = sort_key distance (filter (\<lambda>e. index e \<noteq> i) (entries ds i))"
  by (rule filter_sort)

lemma others_entries:
  "filter (\<lambda>e. index e \<noteq> i) (entries ds i)
   = map (\<lambda>j. \<lparr>index = j,
               distance = euclidean (normalizedMatrix ds ! j) (normalizedMatrix ds ! i),
               row = ds ! j\<rparr>)
         (filter (\<lambda>j. j \<noteq> i) [0 ..< length ds])"
  by (simp add: entries_def filter_map comp_def)





subsection \<open>Degenerate data\<close>

lemma euclidean_Nil [simp]: "euclidean [] v = 0"
  by (simp add: euclidean_def)

text \<open>
  Claim C9: for every non-empty dataset and valid index the handler answers with the
  analysis and never with the error of the \<^verbatim>\<open>catch\<close> block, whatever the data (no
  qualifying column, columns without variance, numeric text that does not parse); and when
  no column qualifies as numeric, the feature vectors have length zero, every distance is 0
  and the neighbours are the other records in ascending index order, cut to ten.
\<close>

theorem degenerate_data:
  assumes "i < length ds"
  shows "(\<exists>r. POST nts \<lparr>dataset = Some ds, target_index = Some (Finite (real i))\<rparr> = Status200 r)
         \<and> (numericCols ds = [] \<longrightarrow>
               (\<forall>v \<in> set (normalizedMatrix ds). v = [])
               \<and> (\<exists>r. POST nts \<lparr>dataset = Some ds, target_index = Some (Finite (real i))\<rparr> = Status200 r
                      \<and> similar r
                          = take 10 (map (\<lambda>j. \<lparr>index = j, distance = 0, row = ds ! j\<rparr>)
                                         (filter (\<lambda>j. j \<noteq> i) [0 ..< length ds]))))"
proof (intro conjI impI)
  show "\<exists>r. POST nts \<lparr>dataset = Some ds, target_index = Some (Finite (real i))\<rparr> = Status200 r"
    using POST_valid [OF assms, of nts] by blast
next
  assume none: "numericCols ds = []"
  show "\<forall>v \<in> set (normalizedMatrix ds). v = []"
    by (simp add: normalizedMatrix_def numericMatrix_def none)
next
  assume none: "numericCols ds = []"
  have empty: "normalizedMatrix ds ! j = []" if "j < length ds" for j
    using that length_normalizedMatrix_row [of j ds] by (simp add: none)
  have others: "filter (\<lambda>e. index e \<noteq> i) (entries ds i)
        = map (\<lambda>j. \<lparr>index = j, distance = 0, row = ds ! j\<rparr>) (filter (\<lambda>j. j \<noteq> i) [0 ..< length ds])"
    unfolding others_entries by (rule map_cong) (simp_all add: empty)
  have "sort_key distance (filter (\<lambda>e. index e \<noteq> i) (entries ds i))
        = filter (\<lambda>e. index e \<noteq> i) (entries ds i)"
    by (rule sort_key_constant [where c = 0]) (auto simp: others)
  then have "similar_of (sort_key distance (entries ds i)) (Finite (real i))
        = take 10 (map (\<lambda>j. \<lparr>index = j, distance = 0, row = ds ! j\<rparr>)
                       (filter (\<lambda>j. j \<noteq> i) [0 ..< length ds]))"
    by (simp only: similar_of_position others_sorted others)
  then show "\<exists>r. POST nts \<lparr>dataset = Some ds, target_index = Some (Finite (real i))\<rparr> = Status200 r
                      \<and> similar r
                          = take 10 (map (\<lambda>j. \<lparr>index = j, distance = 0, row = ds ! j\<rparr>)
                                         (filter (\<lambda>j. j \<noteq> i) [0 ..< length ds]))"
    using POST_valid [OF assms, of nts] by simp
qed

lemma numericCols_labels_only: "numericCols labels_only = []"
  by (simp add: labels_only_def numericCols_def candidateColumns_def Object_keys_def numericCount_def
      IGNORE_NUMERIC_COLUMNS_def toLowerCase_defs row_get_def StringToNumber_defs)

theorem degenerate_data_witness:
  "1 < length labels_only \<and> numericCols labels_only = []
   \<and> normalizedMatrix labels_only = [[], [], []]
   \<and> (\<exists>r. POST nts0 \<lparr>dataset = Some labels_only, target_index = Some (Finite 1)\<rparr> = Status200 r
          \<and> similar r = [\<lparr>index = 0, distance = 0, row = labels_only ! 0\<rparr>,
                          \<lparr>index = 2, distance = 0, row = None\<rparr>])"
proof -
  have len: "1 < length labels_only" by (simp add: labels_only_def)
  have n: "length labels_only = 3" by (simp add: labels_only_def)
  note none = numericCols_labels_only
  from degenerate_data [OF len, of nts0] none
  have a: "\<forall>v \<in> set (normalizedMatrix labels_only). v = []"
    and "\<exists>r. POST nts0 \<lparr>dataset = Some labels_only, target_index = Some (Finite (real 1))\<rparr> = Status200 r
             \<and> similar r
                 = take 10 (map (\<lambda>j. \<lparr>index = j, distance = 0, row = labels_only ! j\<rparr>)
                                (filter (\<lambda>j. j \<noteq> 1) [0 ..< length labels_only]))"
    by blast+
  then obtain r where r: "POST nts0 \<lparr>dataset = Some labels_only, target_index = Some (Finite 1)\<rparr> = Status200 r"
    and s: "similar r
                 = take 10 (map (\<lambda>j. \<lparr>index = j, distance = 0, row = labels_only ! j\<rparr>)
                                (filter (\<lambda>j. j \<noteq> 1) [0 ..< length labels_only]))"
    by auto
  have "filter (\<lambda>j. j \<noteq> 1) [0 ..< length labels_only] = [0, 2]"
    by (simp add: n upt_rec)
  then have s2: "similar r = [\<lparr>index = 0, distance = 0, row = labels_only ! 0\<rparr>,
                          \<lparr>index = 2, distance = 0, row = None\<rparr>]"
    by (simp add: s) (simp add: labels_only_def)
  have m: "normalizedMatrix labels_only = [[], [], []]"
    by (simp add: normalizedMatrix_def numericMatrix_def none) (simp add: labels_only_def)
  show ?thesis using len none m r s2 by blast
qed


subsection \<open>The department summaries\<close>

lemma set_first_occurrences [simp]: "set (first_occurrences xs) = set xs"
  by (induction xs) auto

lemma distinct_first_occurrences [simp]: "distinct (first_occurrences xs)"
  by (induction xs) auto





















lemma department_of_summary [simp]: "department (department_summary nts ds d) = d"
  by (simp add: department_summary_def)






lemmas department_defs =
  topDepartments_def departmentSummaries_def tally_def forEach_body_def attrited_def
  department_of_def row_get_def ATTRITION_FIELD_def DEPARTMENT_FIELD_def toLowerCase_defs
  count_department_def Object_prototype_members_def Object_entries_def is_array_index_def
  DecimalDigit_def digits_value_def digit_of_def Array_sort_def Number_toFixed2_def summary_of_def





text \<open>
  Claim C10: only an absent or null department field maps to \<^verbatim>\<open>Unknown Department\<close>, and a
  record with any other department value is grouped under the text of that value. The
  empty string, the number 0 and false are grouped under their texts, as claimed. A record
  whose department is the name of a member of \<^verbatim>\<open>Object.prototype\<close>, such as
  \<^verbatim>\<open>constructor\<close>, is grouped nowhere: the inherited member is truthy, no entry is created
  for it, and the summaries have no entry for the department.
\<close>

theorem department_constructor:
  "map (department_of nts0) odd_labels = [[], ''0'', ''false'', ''Unknown Department'', ''constructor'']
   \<and> snd (tally nts0 odd_labels)
       = [([], 1, 0), (''0'', 1, 0), (''false'', 1, 0), (''Unknown Department'', 1, 0)]
   \<and> map department (departmentSummaries nts0 odd_labels) = [''0'', [], ''false'', ''Unknown Department'']
   \<and> topDepartments nts0 [Some [(''Department'', JString ''constructor'')]] = []"
  by (simp add: odd_labels_def department_defs Number_toString_def nat_digits.simps nts0_def)


end
